theory Spec2Isabelle
  imports Main
begin

section \<open>JavaScript values, errors and effects\<close>

text \<open>
  The values that flow through \<^verbatim>\<open>common/models/key-value-model.js\<close>. Numbers are
  integral here (TTLs in milliseconds, status codes); objects are property lists.
  \<open>JUndefined\<close> and \<open>JNull\<close> are distinct values, as \<^verbatim>\<open>!==\<close> tells them apart.
\<close>

datatype jsval =
    JUndefined
  | JNull
  | JBool bool
  | JNum int
  | JStr string
  | JObj "(string \<times> jsval) list"

text \<open>
  An \<^verbatim>\<open>Error\<close> object with the properties this file reads or assigns. A property
  that was never assigned reads as \<open>JUndefined\<close>.
\<close>

record js_error =
  message :: string
  statusCode :: jsval
  status :: jsval
  code :: jsval

definition new_Error :: "string \<Rightarrow> js_error" where
  "new_Error msg =
     \<lparr>message = msg, statusCode = JUndefined, status = JUndefined, code = JUndefined\<rparr>"

text \<open>
  A JavaScript function body run on a state \<open>'s\<close>: it either throws (\<open>Inl\<close>) or
  returns a value (\<open>Inr\<close>), and hands back the state as it left it.
\<close>

type_synonym ('s, 'a) js = "'s \<Rightarrow> (js_error + 'a) \<times> 's"

definition js_throw :: "js_error \<Rightarrow> ('s, 'a) js" where
  "js_throw e = (\<lambda>s. (Inl e, s))"

definition js_return :: "'a \<Rightarrow> ('s, 'a) js" where
  "js_return v = (\<lambda>s. (Inr v, s))"

text \<open>Statement sequencing \<^verbatim>\<open>a; b\<close>: a throw in \<open>a\<close> skips \<open>b\<close>.\<close>

definition js_seq :: "('s, 'a) js \<Rightarrow> ('s, 'b) js \<Rightarrow> ('s, 'b) js" where
  "js_seq a b = (\<lambda>s. case a s of (Inl e, s') \<Rightarrow> (Inl e, s') | (Inr _, s') \<Rightarrow> b s')"

section \<open>Message formatting\<close>

text \<open>
  \<^verbatim>\<open>g.f\<close> is the format function of the external package strong-globalize. The
  functions of this file take it as a parameter \<open>g_f\<close>: a template and the argument
  values give the message text.
\<close>

type_synonym formatter = "string \<Rightarrow> jsval list \<Rightarrow> string"

text \<open>
  One concrete formatter, for evaluating the functions on concrete inputs: the
  untranslated (English) reading of a template, where each \<^verbatim>\<open>%s\<close> takes the next
  argument as a string and the \<^verbatim>\<open>{{\<close> \<^verbatim>\<open>}}\<close> markers around words that are never
  translated are dropped. How a number is turned into a string (the language's
  number-to-string conversion, with its rounding and exponent forms) is not modelled:
  it is the parameter \<open>number_toString\<close>.
\<close>

fun js_String :: "(int \<Rightarrow> string) \<Rightarrow> jsval \<Rightarrow> string" where
  "js_String number_toString JUndefined = ''undefined''"
| "js_String number_toString JNull = ''null''"
| "js_String number_toString (JBool b) = (if b then ''true'' else ''false'')"
| "js_String number_toString (JNum n) = number_toString n"
| "js_String number_toString (JStr s) = s"
| "js_String number_toString (JObj ps) = ''[object Object]''"

fun fill_template :: "string \<Rightarrow> string list \<Rightarrow> string" where
  "fill_template (a # b # rest) args =
     (if a = CHR ''%'' \<and> b = CHR ''s'' then
        (case args of
           [] \<Rightarrow> a # b # fill_template rest []
         | x # xs \<Rightarrow> x @ fill_template rest xs)
      else if a = CHR ''{'' \<and> b = CHR ''{'' then fill_template rest args
      else if a = CHR ''}'' \<and> b = CHR ''}'' then fill_template rest args
      else a # fill_template (b # rest) args)"
| "fill_template s args = s"

definition g_f_untranslated :: "(int \<Rightarrow> string) \<Rightarrow> formatter" where
  "g_f_untranslated number_toString template args =
     fill_template template (map (js_String number_toString) args)"

text \<open>
  The decimal digits of an integer, the number printer of the concrete inputs below.
  None of those inputs formats a number.
\<close>

function show_nat :: "nat \<Rightarrow> string" where
  "show_nat n =
     (if n < 10 then [char_of (48 + n)]
      else show_nat (n div 10) @ [char_of (48 + n mod 10)])"
  by pat_completeness auto
termination
  by (relation "measure id") auto

declare show_nat.simps [simp del]

definition decimal :: "int \<Rightarrow> string" where
  "decimal n = (if n < 0 then CHR ''-'' # show_nat (nat (- n)) else show_nat (nat n))"

section \<open>The model class and its six operations\<close>

text \<open>
  \<^verbatim>\<open>throwNotAttached(modelName, methodName)\<close> (lines 170-177): always throws.
\<close>

definition throwNotAttached :: "formatter \<Rightarrow> string \<Rightarrow> string \<Rightarrow> ('s, jsval) js" where
  "throwNotAttached g_f modelName methodName =
     js_throw (new_Error (g_f
       (''Cannot call %s.%s(). '' @
        ''The %s method has not been setup. '' @
        ''The {{KeyValueModel}} has not been correctly attached '' @
        ''to a {{DataSource}}!'')
       [JStr modelName, JStr methodName, JStr methodName]))"

section \<open>The REST after-hook\<close>

text \<open>
  The remoting context handed to a hook, with the parts the hook touches:
  \<^verbatim>\<open>ctx.result\<close>, \<^verbatim>\<open>ctx.method.sharedClass.name\<close> and the lookup
  \<^verbatim>\<open>ctx.getArgByName(name)\<close>. The lookup belongs to the external remoting
  package; it is a field of the context here, so every lookup behaviour is covered.
\<close>

record shared_class =
  name :: string

record shared_method =
  sharedClass :: shared_class

record ctx =
  result :: jsval
  ctx_method :: shared_method
  getArgByName :: "string \<Rightarrow> jsval"

text \<open>
  The continuation \<^verbatim>\<open>cb\<close> receives its argument list (\<^verbatim>\<open>cb()\<close> is \<open>cb []\<close>,
  \<^verbatim>\<open>cb(error)\<close> is \<open>cb [error]\<close>) and runs on the context.
\<close>

type_synonym continuation = "js_error list \<Rightarrow> (ctx, jsval) js"

type_synonym hook = "ctx \<Rightarrow> continuation \<Rightarrow> (js_error + jsval) \<times> ctx"

text \<open>\<^verbatim>\<open>convertNullToNotFoundError(ctx, cb)\<close> (lines 179-189).\<close>

definition convertNullToNotFoundError :: "formatter \<Rightarrow> hook" where
  \<open>convertNullToNotFoundError g_f ctx cb =
     (if result ctx \<noteq> JNull then cb [] ctx
      else
        let modelName = name (sharedClass (ctx_method ctx));
            id = getArgByName ctx ''id'';
            msg = g_f ''Unknown "%s" {{key}} "%s".'' [JStr modelName, id];
            error = new_Error msg;
            error = error\<lparr>statusCode := JNum 404, status := JNum 404\<rparr>;
            error = error\<lparr>code := JStr ''KEY_NOT_FOUND''\<rparr>
        in js_seq (cb [error]) (js_return JUndefined) ctx)\<close>

section \<open>Remoting metadata\<close>

text \<open>
  The option objects passed to \<^verbatim>\<open>remoteMethod\<close>. A property the source leaves
  out is \<open>None\<close>. \<^verbatim>\<open>accepts\<close> is written either as one descriptor or as an array
  of descriptors; \<^verbatim>\<open>type\<close> is a type name or an array of type names. The
  \<^verbatim>\<open>http\<close> property of an argument descriptor is the field \<open>arg_http\<close>, the
  \<^verbatim>\<open>http\<close> property of the method is the field \<open>http\<close>.
\<close>

datatype type_spec = TypeName string | TypeArray "string list"

datatype 'a one_or_many = One 'a | Many "'a list"

fun descriptors :: "'a one_or_many \<Rightarrow> 'a list" where
  "descriptors (One d) = [d]"
| "descriptors (Many ds) = ds"

record arg_source =
  source :: string

record arg_spec =
  arg :: string
  type :: type_spec
  required :: "bool option"
  root :: "bool option"
  arg_http :: "arg_source option"
  description :: "string option"

record http_route =
  path :: string
  verb :: string

record rest_spec =
  after :: hook

record remoting_options =
  accepts :: "arg_spec one_or_many"
  returns :: "arg_spec option"
  http :: http_route
  rest :: "rest_spec option"

text \<open>An argument is required when its descriptor says \<^verbatim>\<open>required: true\<close>.\<close>

definition is_required :: "arg_spec \<Rightarrow> bool" where
  "is_required d = (required d = Some True)"

definition find_arg :: "string \<Rightarrow> remoting_options \<Rightarrow> arg_spec option" where
  "find_arg n opts = find (\<lambda>d. arg d = n) (descriptors (accepts opts))"

text \<open>The option objects of \<^verbatim>\<open>KeyValueModel.setup\<close>, lines 117-166, in source order.\<close>

definition get_options :: "formatter \<Rightarrow> remoting_options" where
  "get_options g_f =
     \<lparr>accepts = One
        \<lparr>arg = ''key'', type = TypeName ''string'', required = Some True, root = None,
         arg_http = Some \<lparr>source = ''path''\<rparr>, description = None\<rparr>,
      returns = Some
        \<lparr>arg = ''value'', type = TypeName ''any'', required = None, root = Some True,
         arg_http = None, description = None\<rparr>,
      http = \<lparr>path = ''/:key'', verb = ''get''\<rparr>,
      rest = Some \<lparr>after = convertNullToNotFoundError g_f\<rparr>\<rparr>"

definition set_options :: remoting_options where
  "set_options =
     \<lparr>accepts = Many
        [\<lparr>arg = ''key'', type = TypeName ''string'', required = Some True, root = None,
          arg_http = Some \<lparr>source = ''path''\<rparr>, description = None\<rparr>,
         \<lparr>arg = ''value'', type = TypeName ''any'', required = Some True, root = None,
          arg_http = Some \<lparr>source = ''body''\<rparr>, description = None\<rparr>,
         \<lparr>arg = ''ttl'', type = TypeName ''number'', required = None, root = None,
          arg_http = Some \<lparr>source = ''query''\<rparr>,
          description = Some ''time to live in milliseconds''\<rparr>],
      returns = None,
      http = \<lparr>path = ''/:key'', verb = ''put''\<rparr>,
      rest = None\<rparr>"

definition expire_options :: remoting_options where
  "expire_options =
     \<lparr>accepts = Many
        [\<lparr>arg = ''key'', type = TypeName ''string'', required = Some True, root = None,
          arg_http = Some \<lparr>source = ''path''\<rparr>, description = None\<rparr>,
         \<lparr>arg = ''ttl'', type = TypeName ''number'', required = Some True, root = None,
          arg_http = Some \<lparr>source = ''form''\<rparr>, description = None\<rparr>],
      returns = None,
      http = \<lparr>path = ''/:key/expire'', verb = ''put''\<rparr>,
      rest = None\<rparr>"

definition ttl_options :: remoting_options where
  "ttl_options =
     \<lparr>accepts = One
        \<lparr>arg = ''key'', type = TypeName ''string'', required = Some True, root = None,
         arg_http = Some \<lparr>source = ''path''\<rparr>, description = None\<rparr>,
      returns = Some
        \<lparr>arg = ''value'', type = TypeName ''any'', required = None, root = Some True,
         arg_http = None, description = None\<rparr>,
      http = \<lparr>path = ''/:key/ttl'', verb = ''get''\<rparr>,
      rest = None\<rparr>"

definition keys_options :: remoting_options where
  "keys_options =
     \<lparr>accepts = One
        \<lparr>arg = ''filter'', type = TypeName ''object'', required = Some False, root = None,
         arg_http = Some \<lparr>source = ''query''\<rparr>, description = None\<rparr>,
      returns = Some
        \<lparr>arg = ''keys'', type = TypeArray [''string''], required = None, root = Some True,
         arg_http = None, description = None\<rparr>,
      http = \<lparr>path = ''/keys'', verb = ''get''\<rparr>,
      rest = None\<rparr>"

section \<open>The model class\<close>

text \<open>
  The model class \<^verbatim>\<open>this\<close>: its name and the remote methods registered on it so
  far. The record is extensible, so a model may carry any further state.
\<close>

record kv_model =
  modelName :: string
  remotes :: "(string \<times> remoting_options) list"

text \<open>The six operations, lines 21-101. Each body is one call of \<open>throwNotAttached\<close>.\<close>

definition KeyValueModel_get ::
  "formatter \<Rightarrow> jsval \<Rightarrow> jsval \<Rightarrow> 'cb \<Rightarrow> ('z kv_model_scheme, jsval) js" where
  "KeyValueModel_get g_f key options callback =
     (\<lambda>this. js_seq (throwNotAttached g_f (modelName this) ''get'')
                (js_return JUndefined) this)"

definition KeyValueModel_set ::
  "formatter \<Rightarrow> jsval \<Rightarrow> jsval \<Rightarrow> jsval \<Rightarrow> 'cb \<Rightarrow> ('z kv_model_scheme, jsval) js" where
  "KeyValueModel_set g_f key val options callback =
     (\<lambda>this. js_seq (throwNotAttached g_f (modelName this) ''set'')
                (js_return JUndefined) this)"

definition KeyValueModel_expire ::
  "formatter \<Rightarrow> jsval \<Rightarrow> jsval \<Rightarrow> jsval \<Rightarrow> 'cb \<Rightarrow> ('z kv_model_scheme, jsval) js" where
  "KeyValueModel_expire g_f key ttl options callback =
     (\<lambda>this. js_seq (throwNotAttached g_f (modelName this) ''expire'')
                (js_return JUndefined) this)"

definition KeyValueModel_ttl ::
  "formatter \<Rightarrow> jsval \<Rightarrow> jsval \<Rightarrow> 'cb \<Rightarrow> ('z kv_model_scheme, jsval) js" where
  "KeyValueModel_ttl g_f key options callback =
     (\<lambda>this. js_seq (throwNotAttached g_f (modelName this) ''ttl'')
                (js_return JUndefined) this)"

definition KeyValueModel_keys ::
  "formatter \<Rightarrow> jsval \<Rightarrow> jsval \<Rightarrow> 'cb \<Rightarrow> ('z kv_model_scheme, jsval) js" where
  "KeyValueModel_keys g_f filter' options callback =
     (\<lambda>this. js_seq (throwNotAttached g_f (modelName this) ''keys'')
                (js_return JUndefined) this)"

definition KeyValueModel_iterateKeys ::
  "formatter \<Rightarrow> jsval \<Rightarrow> jsval \<Rightarrow> ('z kv_model_scheme, jsval) js" where
  "KeyValueModel_iterateKeys g_f filter' options =
     (\<lambda>this. js_seq (throwNotAttached g_f (modelName this) ''iterateKeys'')
                (js_return JUndefined) this)"

section \<open>Setup\<close>

text \<open>
  Modelled from the spec: \<^verbatim>\<open>remoteMethod(name, options)\<close> is a method of the base
  model class, outside this source file. The spec calls it the wiring step that
  registers HTTP argument and return mappings with the remoting subsystem; here it
  appends the pair of name and options to the model's registrations.
\<close>

definition remoteMethod :: "string \<Rightarrow> remoting_options \<Rightarrow> ('z kv_model_scheme, jsval) js" where
  "remoteMethod n opts =
     (\<lambda>this. (Inr JUndefined, this\<lparr>remotes := remotes this @ [(n, opts)]\<rparr>))"

text \<open>
  \<^verbatim>\<open>KeyValueModel.setup\<close>, lines 114-167. The base class's \<^verbatim>\<open>setup\<close> is outside
  this file and is the parameter \<open>base_setup\<close>; it runs first, and if it throws
  nothing is registered.
\<close>

definition KeyValueModel_setup ::
  "formatter \<Rightarrow> ('z kv_model_scheme, jsval) js \<Rightarrow> ('z kv_model_scheme, jsval) js" where
  "KeyValueModel_setup g_f base_setup =
     js_seq base_setup
    (js_seq (remoteMethod ''get'' (get_options g_f))
    (js_seq (remoteMethod ''set'' set_options)
    (js_seq (remoteMethod ''expire'' expire_options)
    (js_seq (remoteMethod ''ttl'' ttl_options)
    (js_seq (remoteMethod ''keys'' keys_options)
            (js_return JUndefined))))))"

section \<open>Reading the registrations\<close>

text \<open>What a registration says: its route, its argument names, which are required.\<close>

definition route_of :: "string \<times> remoting_options \<Rightarrow> string \<times> string \<times> string" where
  "route_of r = (fst r, verb (http (snd r)), path (http (snd r)))"

definition declared_args :: "remoting_options \<Rightarrow> string list" where
  "declared_args opts = map arg (descriptors (accepts opts))"

definition arg_required :: "string \<Rightarrow> remoting_options \<Rightarrow> bool" where
  "arg_required n opts =
     (case find_arg n opts of Some d \<Rightarrow> is_required d | None \<Rightarrow> False)"

definition arg_optional :: "string \<Rightarrow> remoting_options \<Rightarrow> bool" where
  "arg_optional n opts =
     (case find_arg n opts of Some d \<Rightarrow> \<not> is_required d | None \<Rightarrow> False)"

section \<open>The store behind the operations\<close>

text \<open>
  The six operations above are what this file gives a model before a data source is
  attached. What they do once a store is behind them is not in this file; the
  definitions of this section follow the spec's data model (section 3), its Entry
  Store (4.1) and its Expiration Policy (4.2). A store is present throughout: the
  case of no backend is the six operations above. The Access Facade (4.4), which
  checks arguments before it delegates to the store, is not modelled. Time is in
  milliseconds.
\<close>

text \<open>
  Modelled from the spec: the error taxonomy of section 7, for the store that is
  missing from the source.
\<close>

datatype store_error = InvalidArgument | NotFound | Unconfigured | BackendFailure

text \<open>
  Modelled from the spec: an Entry (section 3) of the missing store, with its key, its
  opaque value and its optional absolute expiry; \<open>None\<close> is "no expiration".
\<close>

record 'v entry =
  entry_key :: string
  entry_value :: 'v
  expiresAt :: "int option"

text \<open>
  Modelled from the spec: the Store (section 3) that is missing from the source, the
  mapping from key to Entry.
\<close>

type_synonym 'v store = "string \<Rightarrow> 'v entry option"

text \<open>
  Modelled from the spec: what the missing store's \<^verbatim>\<open>get\<close> hands back, a value or
  the signal \<^verbatim>\<open>NOT_FOUND\<close>; absence is a result, not one of the errors.
\<close>

datatype 'v lookup = Found 'v | NOT_FOUND

text \<open>
  Modelled from the spec: \<^verbatim>\<open>isExpired(entry, now)\<close> of the missing Expiration Policy
  (4.2): \<^verbatim>\<open>expiresAt\<close> is set and \<^verbatim>\<open>expiresAt <= now\<close>.
\<close>

definition isExpired :: "'v entry \<Rightarrow> int \<Rightarrow> bool" where
  "isExpired e now = (case expiresAt e of None \<Rightarrow> False | Some t \<Rightarrow> t \<le> now)"

text \<open>
  Modelled from the spec: \<^verbatim>\<open>delete(key)\<close> of the missing Entry Store (4.1), which
  removes the entry unconditionally.
\<close>

definition store_delete :: "'v store \<Rightarrow> string \<Rightarrow> 'v store" where
  "store_delete s k = s(k := None)"

text \<open>
  Modelled from the spec: \<^verbatim>\<open>get(key)\<close> of the missing Entry Store (4.1). It returns
  the value only if the entry exists and is not expired, and it removes an expired
  entry it comes across. It has no failing branch.
\<close>

definition store_get ::
  "'v store \<Rightarrow> string \<Rightarrow> int \<Rightarrow> (store_error + 'v lookup) \<times> 'v store" where
  "store_get s k now =
     (case s k of
        None \<Rightarrow> (Inr NOT_FOUND, s)
      | Some e \<Rightarrow>
          if isExpired e now then (Inr NOT_FOUND, store_delete s k)
          else (Inr (Found (entry_value e)), s))"

text \<open>
  Modelled from the spec: \<^verbatim>\<open>set(key, value, options{ttl?})\<close> of the missing Entry
  Store (4.1). It fails with \<^verbatim>\<open>InvalidArgument\<close> if the key is empty or the value
  is not serializable by the backend (the parameter \<open>serializable\<close>); otherwise it
  creates or overwrites the entry, with \<^verbatim>\<open>expiresAt = now + ttl\<close> if a TTL is given
  and no expiration if it is omitted.
\<close>

definition store_set ::
  "('v \<Rightarrow> bool) \<Rightarrow> 'v store \<Rightarrow> string \<Rightarrow> 'v \<Rightarrow> int option \<Rightarrow> int \<Rightarrow>
     (store_error + unit) \<times> 'v store" where
  "store_set serializable s k v ttl now =
     (if k = [] then (Inl InvalidArgument, s)
      else if \<not> serializable v then (Inl InvalidArgument, s)
      else (Inr (),
            s(k \<mapsto> \<lparr>entry_key = k, entry_value = v,
                      expiresAt = (case ttl of None \<Rightarrow> None | Some t \<Rightarrow> Some (now + t))\<rparr>)))"

text \<open>
  Modelled from the spec: \<^verbatim>\<open>expire(key, ttl)\<close> of the missing Expiration Policy
  (4.2). It fails with \<^verbatim>\<open>NotFound\<close> if the key does not exist, creating nothing; an
  entry already expired is logically absent (section 3, section 7) and is reclaimed.
  On a live entry it updates only \<^verbatim>\<open>expiresAt\<close>, to \<^verbatim>\<open>now + ttl\<close>; of the two
  readings the spec allows for a non-positive TTL this is "expire immediately".
\<close>

definition store_expire ::
  "'v store \<Rightarrow> string \<Rightarrow> int \<Rightarrow> int \<Rightarrow> (store_error + unit) \<times> 'v store" where
  "store_expire s k ttl now =
     (case s k of
        None \<Rightarrow> (Inl NotFound, s)
      | Some e \<Rightarrow>
          if isExpired e now then (Inl NotFound, store_delete s k)
          else (Inr (), s(k \<mapsto> e\<lparr>expiresAt := Some (now + ttl)\<rparr>)))"

text \<open>
  Modelled from the spec: the calls a client makes on the missing store, \<^verbatim>\<open>get\<close>,
  \<^verbatim>\<open>set\<close> with its optional TTL and \<^verbatim>\<open>expire\<close> (section 6), for speaking of what
  was "previously set" (section 8).
\<close>

datatype 'v store_op = OpGet string | OpSet string 'v "int option" | OpExpire string int

text \<open>
  Modelled from the spec: one call on the missing store at the time \<open>now\<close>, keeping
  the store it leaves.
\<close>

fun apply_op :: "('v \<Rightarrow> bool) \<Rightarrow> 'v store \<Rightarrow> int \<times> 'v store_op \<Rightarrow> 'v store" where
  "apply_op serializable s (now, OpGet k) = snd (store_get s k now)"
| "apply_op serializable s (now, OpSet k v ttl) = snd (store_set serializable s k v ttl now)"
| "apply_op serializable s (now, OpExpire k ttl) = snd (store_expire s k ttl now)"

text \<open>
  Modelled from the spec: the lifecycle of the missing store (section 3), where entries
  are created by \<^verbatim>\<open>set\<close> only: the store starts empty and a history of calls, each
  with its time, is applied to it in order.
\<close>

definition run_history :: "('v \<Rightarrow> bool) \<Rightarrow> (int \<times> 'v store_op) list \<Rightarrow> 'v store" where
  "run_history serializable h = foldl (apply_op serializable) Map.empty h"

text \<open>
  Modelled from the spec: a key was previously set (section 8) in a history when one
  of its calls is a \<^verbatim>\<open>set\<close> of that key.
\<close>

fun sets_key :: "string \<Rightarrow> 'v store_op \<Rightarrow> bool" where
  "sets_key k (OpSet k' v ttl) = (k' = k)"
| "sets_key k (OpGet k') = False"
| "sets_key k (OpExpire k' ttl) = False"

text \<open>
  Modelled from the spec: "previously set" (section 8) for a whole history; a
  \<^verbatim>\<open>set\<close> that failed counts as well.
\<close>

definition previously_set :: "string \<Rightarrow> (int \<times> 'v store_op) list \<Rightarrow> bool" where
  "previously_set k h = list_ex (\<lambda>p. sets_key k (snd p)) h"

section \<open>Concrete inputs\<close>

text \<open>Two models named KV, a base setup that registers nothing.\<close>

definition kv0 :: kv_model where
  "kv0 = \<lparr>modelName = ''KV'', remotes = []\<rparr>"

definition kv1 :: kv_model where
  "kv1 = \<lparr>modelName = ''KV'', remotes = [(''set'', set_options)]\<rparr>"

definition base_setup_noop :: "(kv_model, jsval) js" where
  "base_setup_noop = js_return JUndefined"

text \<open>
  Contexts of a request for the key \<^verbatim>\<open>foo\<close> whose only named argument is
  \<^verbatim>\<open>key\<close>, and a continuation that fails the request with the error it is given.
\<close>

definition args_by_name :: "(string \<times> jsval) list \<Rightarrow> string \<Rightarrow> jsval" where
  "args_by_name args n = (case map_of args n of Some v \<Rightarrow> v | None \<Rightarrow> JUndefined)"

definition ctx_missing :: ctx where
  "ctx_missing =
     \<lparr>result = JNull, ctx_method = \<lparr>sharedClass = \<lparr>name = ''KV''\<rparr>\<rparr>,
      getArgByName = args_by_name [(''key'', JStr ''foo'')]\<rparr>"

definition ctx_found :: ctx where
  "ctx_found = ctx_missing\<lparr>result := JStr ''bar''\<rparr>"

definition ctx_undefined :: ctx where
  "ctx_undefined = ctx_missing\<lparr>result := JUndefined\<rparr>"

definition propagate :: continuation where
  "propagate errs =
     (case errs of [] \<Rightarrow> js_return (JStr ''next'') | e # _ \<Rightarrow> js_throw e)"

text \<open>
  The context of a request for the key \<^verbatim>\<open>foo\<close> that also carries a value named
  \<^verbatim>\<open>id\<close> (in its query string, say), which the lookup resolves as well.
\<close>

definition ctx_id_query :: ctx where
  "ctx_id_query =
     \<lparr>result = JNull, ctx_method = \<lparr>sharedClass = \<lparr>name = ''KV''\<rparr>\<rparr>,
      getArgByName = args_by_name [(''key'', JStr ''foo''), (''id'', JStr ''foo'')]\<rparr>"

text \<open>A callback that would rename the model if it were ever run.\<close>

definition clobber :: "jsval list \<Rightarrow> (kv_model, jsval) js" where
  "clobber args = (\<lambda>this. (Inr JUndefined, this\<lparr>modelName := ''clobbered''\<rparr>))"

text \<open>
  A backend that serializes every value but \<^verbatim>\<open>undefined\<close>; a history that sets \<^verbatim>\<open>a\<close> and touches \<^verbatim>\<open>b\<close> without
  setting it; a store holding \<^verbatim>\<open>a\<close> until time 50.
\<close>

definition serializes :: "jsval \<Rightarrow> bool" where
  "serializes v = (v \<noteq> JUndefined)"

definition history0 :: "(int \<times> jsval store_op) list" where
  "history0 =
     [(0, OpSet ''a'' (JObj [(''x'', JNum 1)]) (Some 50)),
      (10, OpGet ''b''),
      (20, OpExpire ''b'' 5)]"

definition store_a :: "jsval store" where
  "store_a =
     Map.empty(''a'' \<mapsto>
       \<lparr>entry_key = ''a'', entry_value = JObj [(''x'', JNum 1)], expiresAt = Some 50\<rparr>)"

section \<open>Basic facts\<close>

lemma throwNotAttached_run:
  "throwNotAttached g_f m n s =
     (Inl \<lparr>message = g_f
        ''Cannot call %s.%s(). The %s method has not been setup. The {{KeyValueModel}} has not been correctly attached to a {{DataSource}}!''
        [JStr m, JStr n, JStr n],
        statusCode = JUndefined, status = JUndefined, code = JUndefined\<rparr>, s)"
  by (simp add: throwNotAttached_def js_throw_def new_Error_def)

lemma js_seq_throwNotAttached:
  "js_seq (throwNotAttached g_f m n) b s = throwNotAttached g_f m n s"
  by (simp add: js_seq_def throwNotAttached_def js_throw_def)

text \<open>The text of the error under the untranslated formatter.\<close>

lemma not_attached_text:
  "fst (throwNotAttached (g_f_untranslated number_toString) m n s) =
     Inl (new_Error (''Cannot call '' @ m @ ''.'' @ n @ ''(). The '' @ n @
       '' method has not been setup. The KeyValueModel has not been correctly attached to a DataSource!''))"
  by (simp add: throwNotAttached_def js_throw_def g_f_untranslated_def)

lemmas stub_defs =
  KeyValueModel_get_def KeyValueModel_set_def KeyValueModel_expire_def
  KeyValueModel_ttl_def KeyValueModel_keys_def KeyValueModel_iterateKeys_def

lemma hook_not_null:
  "result ctx \<noteq> JNull \<Longrightarrow> convertNullToNotFoundError g_f ctx cb = cb [] ctx"
  by (simp add: convertNullToNotFoundError_def)

lemma hook_null:
  \<open>result ctx = JNull \<Longrightarrow>
   convertNullToNotFoundError g_f ctx cb =
     js_seq (cb [\<lparr>message = g_f ''Unknown "%s" {{key}} "%s".''
                     [JStr (name (sharedClass (ctx_method ctx))), getArgByName ctx ''id''],
                  statusCode = JNum 404, status = JNum 404,
                  code = JStr ''KEY_NOT_FOUND''\<rparr>])
            (js_return JUndefined) ctx\<close>
  by (simp add: convertNullToNotFoundError_def new_Error_def Let_def)

text \<open>Setup runs the base setup, then makes its five registrations in order.\<close>

lemma setup_run:
  assumes "base_setup this = (Inr v, this')"
  shows "KeyValueModel_setup g_f base_setup this =
     (Inr JUndefined,
      this'\<lparr>remotes := remotes this' @
        [(''get'', get_options g_f), (''set'', set_options), (''expire'', expire_options),
         (''ttl'', ttl_options), (''keys'', keys_options)]\<rparr>)"
  using assms
  by (simp add: KeyValueModel_setup_def js_seq_def remoteMethod_def js_return_def)

lemma setup_base_throws:
  assumes "base_setup this = (Inl e, this')"
  shows "KeyValueModel_setup g_f base_setup this = (Inl e, this')"
  using assms by (simp add: KeyValueModel_setup_def js_seq_def)

lemma base_setup_noop_run: "base_setup_noop kv0 = (Inr JUndefined, kv0)"
  by (simp add: base_setup_noop_def js_return_def)

lemma propagate_run:
  "propagate [] c = (Inr (JStr ''next''), c)"
  "propagate (e # es) c = (Inl e, c)"
  by (simp_all add: propagate_def js_return_def js_throw_def)

lemma ctx_missing_result: "result ctx_missing = JNull"
  by (simp add: ctx_missing_def)

lemma ctx_missing_message:
  \<open>(g_f_untranslated decimal) ''Unknown "%s" {{key}} "%s".''
     [JStr (name (sharedClass (ctx_method ctx_missing))), JUndefined] =
   ''Unknown "KV" key "undefined".''\<close>
  by (simp add: g_f_untranslated_def ctx_missing_def)

lemma ctx_missing_id: "getArgByName ctx_missing ''id'' = JUndefined"
  by (simp add: ctx_missing_def args_by_name_def)

text \<open>An operation that does not set a key leaves it absent.\<close>

lemma store_get_absent: "s k = None \<Longrightarrow> store_get s k now = (Inr NOT_FOUND, s)"
  by (simp add: store_get_def)

lemma apply_op_keeps_absent:
  assumes "s k = None" and "\<not> sets_key k (snd p)"
  shows "apply_op serializable s p k = None"
proof (cases p)
  case (Pair now op)
  show ?thesis
  proof (cases op)
    case (OpGet k')
    with Pair assms show ?thesis
      by (auto simp: store_get_def store_delete_def split: option.splits)
  next
    case (OpSet k' v ttl)
    with Pair assms show ?thesis
      by (auto simp: store_set_def)
  next
    case (OpExpire k' ttl)
    with Pair assms show ?thesis
      by (auto simp: store_expire_def store_delete_def split: option.splits)
  qed
qed

lemma foldl_keeps_absent:
  "s k = None \<Longrightarrow> \<not> list_ex (\<lambda>p. sets_key k (snd p)) h \<Longrightarrow>
   foldl (apply_op serializable) s h k = None"
proof (induction h arbitrary: s)
  case Nil
  then show ?case by simp
next
  case (Cons p h)
  from Cons.prems have "\<not> sets_key k (snd p)" and "\<not> list_ex (\<lambda>p. sets_key k (snd p)) h"
    by simp_all
  with Cons.prems(1) Cons.IH [of "apply_op serializable s p"] show ?case
    by (simp add: apply_op_keeps_absent)
qed

lemma run_history_absent:
  "\<not> previously_set k h \<Longrightarrow> run_history serializable h k = None"
  unfolding previously_set_def run_history_def
  by (rule foldl_keeps_absent) simp_all

section \<open>The operations without a data source\<close>

text \<open>
  C1. Each of the six operations, for every argument value and every model, is exactly
  one run of \<open>throwNotAttached\<close> with the model's name and the operation's own name;
  and \<open>throwNotAttached\<close> throws an error whose message is the "Cannot call ... has
  not been setup ... not been correctly attached" template filled with the model name
  and the method name, leaving the model as it was.
\<close>

theorem stubs_throw_not_attached:
  "KeyValueModel_get g_f key options callback this =
     throwNotAttached g_f (modelName this) ''get'' this \<and>
   KeyValueModel_set g_f key val options callback2 this =
     throwNotAttached g_f (modelName this) ''set'' this \<and>
   KeyValueModel_expire g_f key ttl options callback3 this =
     throwNotAttached g_f (modelName this) ''expire'' this \<and>
   KeyValueModel_ttl g_f key options callback4 this =
     throwNotAttached g_f (modelName this) ''ttl'' this \<and>
   KeyValueModel_keys g_f filter' options callback5 this =
     throwNotAttached g_f (modelName this) ''keys'' this \<and>
   KeyValueModel_iterateKeys g_f filter' options this =
     throwNotAttached g_f (modelName this) ''iterateKeys'' this \<and>
   throwNotAttached g_f (modelName this) method_name this =
     (Inl \<lparr>message = g_f
        ''Cannot call %s.%s(). The %s method has not been setup. The {{KeyValueModel}} has not been correctly attached to a {{DataSource}}!''
        [JStr (modelName this), JStr method_name, JStr method_name],
        statusCode = JUndefined, status = JUndefined, code = JUndefined\<rparr>, this)"
  unfolding stub_defs
  by (simp only: js_seq_throwNotAttached throwNotAttached_run simp_thms)

text \<open>
  C10. For each of the six operations, two invocations with any arguments (keys,
  values, TTLs, options, callbacks of any kind) on models that agree on the model name
  throw the same error, so the error depends on nothing but the model name and the
  operation; each invocation throws, and the model it ran on is returned as it was.
  The callback ranges over every value, functions on the model included, and none
  shows in the outcome: it is never run.
\<close>

theorem stubs_depend_only_on_model_name:
  assumes "modelName this = modelName that"
  shows
   "fst (KeyValueModel_get g_f k1 o1 c1 this) = fst (KeyValueModel_get g_f k2 o2 c2 that) \<and>
    isl (fst (KeyValueModel_get g_f k1 o1 c1 this)) \<and>
    snd (KeyValueModel_get g_f k1 o1 c1 this) = this \<and>
    fst (KeyValueModel_set g_f k1 v1 o1 c1 this) =
      fst (KeyValueModel_set g_f k2 v2 o2 c2 that) \<and>
    isl (fst (KeyValueModel_set g_f k1 v1 o1 c1 this)) \<and>
    snd (KeyValueModel_set g_f k1 v1 o1 c1 this) = this \<and>
    fst (KeyValueModel_expire g_f k1 t1 o1 c1 this) =
      fst (KeyValueModel_expire g_f k2 t2 o2 c2 that) \<and>
    isl (fst (KeyValueModel_expire g_f k1 t1 o1 c1 this)) \<and>
    snd (KeyValueModel_expire g_f k1 t1 o1 c1 this) = this \<and>
    fst (KeyValueModel_ttl g_f k1 o1 c1 this) = fst (KeyValueModel_ttl g_f k2 o2 c2 that) \<and>
    isl (fst (KeyValueModel_ttl g_f k1 o1 c1 this)) \<and>
    snd (KeyValueModel_ttl g_f k1 o1 c1 this) = this \<and>
    fst (KeyValueModel_keys g_f f1 o1 c1 this) = fst (KeyValueModel_keys g_f f2 o2 c2 that) \<and>
    isl (fst (KeyValueModel_keys g_f f1 o1 c1 this)) \<and>
    snd (KeyValueModel_keys g_f f1 o1 c1 this) = this \<and>
    fst (KeyValueModel_iterateKeys g_f f1 o1 this) =
      fst (KeyValueModel_iterateKeys g_f f2 o2 that) \<and>
    isl (fst (KeyValueModel_iterateKeys g_f f1 o1 this)) \<and>
    snd (KeyValueModel_iterateKeys g_f f1 o1 this) = this"
  unfolding stub_defs js_seq_throwNotAttached throwNotAttached_run
  using assms by simp

theorem stubs_depend_only_on_model_name_witness:
  "modelName kv0 = modelName kv1 \<and>
   fst (KeyValueModel_get (g_f_untranslated decimal) (JStr ''a'') JUndefined clobber kv0) =
     fst (KeyValueModel_get (g_f_untranslated decimal) (JStr ''b'') JNull propagate kv1) \<and>
   isl (fst (KeyValueModel_get (g_f_untranslated decimal) (JStr ''a'') JUndefined clobber kv0)) \<and>
   snd (KeyValueModel_get (g_f_untranslated decimal) (JStr ''a'') JUndefined clobber kv0) = kv0 \<and>
   fst (KeyValueModel_set (g_f_untranslated decimal) (JStr ''a'') (JNum 1) JUndefined clobber kv0) =
     fst (KeyValueModel_set (g_f_untranslated decimal) (JStr ''b'') (JStr ''two'') JNull propagate kv1) \<and>
   snd (KeyValueModel_set (g_f_untranslated decimal) (JStr ''a'') (JNum 1) JUndefined clobber kv0) = kv0"
proof -
  have h: "modelName kv0 = modelName kv1"
    by (simp add: kv0_def kv1_def)
  from stubs_depend_only_on_model_name [where this = kv0 and that = kv1
      and g_f = "g_f_untranslated decimal" and ?k1.0 = "JStr ''a''" and ?o1.0 = JUndefined
      and ?c1.0 = clobber and ?k2.0 = "JStr ''b''" and ?o2.0 = JNull and ?c2.0 = propagate
      and ?v1.0 = "JNum 1" and ?v2.0 = "JStr ''two''"
      and ?t1.0 = "JNum 1000" and ?t2.0 = "JNum 0"
      and ?f1.0 = JUndefined and ?f2.0 = "JObj []", OF h] h
  show ?thesis by blast
qed

section \<open>What setup registers\<close>

text \<open>
  C2, as the claim states it, fails: after setup on a model with no registrations
  (and a base setup that registers nothing), no registration is named
  \<^verbatim>\<open>iterateKeys\<close>.
\<close>

theorem setup_iterateKeys_counterexample:
  "''iterateKeys'' \<notin>
     fst ` set (remotes (snd (KeyValueModel_setup (g_f_untranslated decimal) base_setup_noop kv0)))"
  using setup_run [where base_setup = base_setup_noop and this = kv0 and this' = kv0,
      OF base_setup_noop_run]
  by (simp add: kv0_def)

text \<open>
  C2, amended. When the base setup returns, setup returns too and what it has
  registered, in order, is exactly five bindings: get as GET /:key, set as PUT /:key,
  expire as PUT /:key/expire, ttl as GET /:key/ttl, keys as GET /keys. There is no
  binding for iterateKeys.
\<close>

theorem setup_registers_five:
  assumes "base_setup this = (Inr v, this')"
  shows "fst (KeyValueModel_setup g_f base_setup this) = Inr JUndefined \<and>
    map route_of (drop (length (remotes this'))
        (remotes (snd (KeyValueModel_setup g_f base_setup this)))) =
      [(''get'', ''get'', ''/:key''),
       (''set'', ''put'', ''/:key''),
       (''expire'', ''put'', ''/:key/expire''),
       (''ttl'', ''get'', ''/:key/ttl''),
       (''keys'', ''get'', ''/keys'')]"
  using setup_run [where base_setup = base_setup and this = this and this' = this', OF assms]
  by (simp add: route_of_def get_options_def set_options_def
      expire_options_def ttl_options_def keys_options_def)

theorem setup_registers_five_witness:
  "base_setup_noop kv0 = (Inr JUndefined, kv0) \<and>
   fst (KeyValueModel_setup (g_f_untranslated decimal) base_setup_noop kv0) = Inr JUndefined \<and>
   map route_of (remotes (snd (KeyValueModel_setup (g_f_untranslated decimal) base_setup_noop kv0))) =
      [(''get'', ''get'', ''/:key''),
       (''set'', ''put'', ''/:key''),
       (''expire'', ''put'', ''/:key/expire''),
       (''ttl'', ''get'', ''/:key/ttl''),
       (''keys'', ''get'', ''/keys'')]"
proof -
  have "remotes kv0 = []" by (simp add: kv0_def)
  with base_setup_noop_run
    setup_registers_five [where base_setup = base_setup_noop and this = kv0
      and this' = kv0 and g_f = "g_f_untranslated decimal", OF base_setup_noop_run]
  show ?thesis by simp
qed

text \<open>
  C6. Among the bindings setup registers, the one for set declares \<^verbatim>\<open>ttl\<close>
  (described as time to live in milliseconds) without requiring it, the one for
  expire requires \<^verbatim>\<open>ttl\<close>, and both require \<^verbatim>\<open>key\<close>.
\<close>

theorem set_ttl_optional_expire_ttl_required:
  assumes "base_setup this = (Inr v, this')"
  shows "map_of (drop (length (remotes this'))
            (remotes (snd (KeyValueModel_setup g_f base_setup this)))) ''set'' =
           Some set_options \<and>
         map_of (drop (length (remotes this'))
            (remotes (snd (KeyValueModel_setup g_f base_setup this)))) ''expire'' =
           Some expire_options \<and>
         arg_optional ''ttl'' set_options \<and>
         arg_required ''ttl'' expire_options \<and>
         arg_required ''key'' set_options \<and>
         arg_required ''key'' expire_options \<and>
         map_option description (find_arg ''ttl'' set_options) =
           Some (Some ''time to live in milliseconds'')"
  using setup_run [where base_setup = base_setup and this = this and this' = this', OF assms]
  by (simp add: arg_optional_def arg_required_def find_arg_def
      is_required_def set_options_def expire_options_def)

theorem set_ttl_optional_expire_ttl_required_witness:
  "base_setup_noop kv0 = (Inr JUndefined, kv0) \<and>
   map_of (remotes (snd (KeyValueModel_setup (g_f_untranslated decimal) base_setup_noop kv0))) ''set'' =
     Some set_options \<and>
   map_of (remotes (snd (KeyValueModel_setup (g_f_untranslated decimal) base_setup_noop kv0))) ''expire'' =
     Some expire_options \<and>
   arg_optional ''ttl'' set_options \<and>
   arg_required ''ttl'' expire_options \<and>
   arg_required ''key'' set_options \<and>
   arg_required ''key'' expire_options"
proof -
  have "remotes kv0 = []" by (simp add: kv0_def)
  with base_setup_noop_run
    set_ttl_optional_expire_ttl_required [where base_setup = base_setup_noop and this = kv0
      and this' = kv0 and g_f = "g_f_untranslated decimal", OF base_setup_noop_run]
  show ?thesis by simp
qed

section \<open>The after-hook of get\<close>

text \<open>
  C3. The get binding carries \<open>convertNullToNotFoundError\<close> as its REST after-hook.
  On a null result the hook hands the continuation one error, with the "Unknown ...
  key ..." message, status code 404 (as \<^verbatim>\<open>statusCode\<close> and \<^verbatim>\<open>status\<close>) and the
  code \<^verbatim>\<open>KEY_NOT_FOUND\<close>; on any other result the hook is the continuation called
  with no error on the untouched context.
\<close>

theorem get_binding_null_to_not_found:
  \<open>rest (get_options g_f) = Some \<lparr>after = convertNullToNotFoundError g_f\<rparr> \<and>
   (result ctx = JNull \<longrightarrow>
      convertNullToNotFoundError g_f ctx cb =
        js_seq (cb [\<lparr>message = g_f ''Unknown "%s" {{key}} "%s".''
                        [JStr (name (sharedClass (ctx_method ctx))), getArgByName ctx ''id''],
                     statusCode = JNum 404, status = JNum 404,
                     code = JStr ''KEY_NOT_FOUND''\<rparr>])
               (js_return JUndefined) ctx) \<and>
   (result ctx \<noteq> JNull \<longrightarrow> convertNullToNotFoundError g_f ctx cb = cb [] ctx)\<close>
  by (simp add: get_options_def hook_null hook_not_null)

theorem get_binding_null_to_not_found_witness:
  \<open>result ctx_missing = JNull \<and>
   convertNullToNotFoundError (g_f_untranslated decimal) ctx_missing propagate =
     (Inl \<lparr>message = ''Unknown "KV" key "undefined".'',
           statusCode = JNum 404, status = JNum 404, code = JStr ''KEY_NOT_FOUND''\<rparr>,
      ctx_missing) \<and>
   result ctx_found \<noteq> JNull \<and>
   convertNullToNotFoundError (g_f_untranslated decimal) ctx_found propagate =
     (Inr (JStr ''next''), ctx_found)\<close>
proof -
  have f: "result ctx_found \<noteq> JNull"
    by (simp add: ctx_found_def)
  from get_binding_null_to_not_found [of "g_f_untranslated decimal" ctx_missing propagate]
    ctx_missing_result ctx_missing_id ctx_missing_message
  have 1: \<open>convertNullToNotFoundError (g_f_untranslated decimal) ctx_missing propagate =
     (Inl \<lparr>message = ''Unknown "KV" key "undefined".'',
           statusCode = JNum 404, status = JNum 404, code = JStr ''KEY_NOT_FOUND''\<rparr>,
      ctx_missing)\<close>
    by (simp add: js_seq_def propagate_run)
  from get_binding_null_to_not_found [of "g_f_untranslated decimal" ctx_found propagate] f
  have 2: "convertNullToNotFoundError (g_f_untranslated decimal) ctx_found propagate =
     (Inr (JStr ''next''), ctx_found)"
    by (simp add: propagate_run)
  from ctx_missing_result f 1 2 show ?thesis by simp
qed

text \<open>
  C8. Whenever the result is not strictly null the hook is the continuation called
  with no error on the untouched context; in particular for the results
  \<^verbatim>\<open>undefined\<close>, \<^verbatim>\<open>false\<close>, \<^verbatim>\<open>0\<close> and the empty string. On null it is not: a
  continuation that fails on an error sees the difference.
\<close>

theorem hook_passes_non_null:
  assumes "result ctx \<noteq> JNull"
  shows "convertNullToNotFoundError g_f ctx cb = cb [] ctx \<and>
    convertNullToNotFoundError g_f (c\<lparr>result := JUndefined\<rparr>) cb =
      cb [] (c\<lparr>result := JUndefined\<rparr>) \<and>
    convertNullToNotFoundError g_f (c\<lparr>result := JBool False\<rparr>) cb =
      cb [] (c\<lparr>result := JBool False\<rparr>) \<and>
    convertNullToNotFoundError g_f (c\<lparr>result := JNum 0\<rparr>) cb =
      cb [] (c\<lparr>result := JNum 0\<rparr>) \<and>
    convertNullToNotFoundError g_f (c\<lparr>result := JStr ''''\<rparr>) cb =
      cb [] (c\<lparr>result := JStr ''''\<rparr>) \<and>
    fst (convertNullToNotFoundError g_f (c\<lparr>result := JNull\<rparr>) propagate) \<noteq>
      fst (propagate [] (c\<lparr>result := JNull\<rparr>))"
  using assms
  by (simp add: hook_not_null hook_null js_seq_def propagate_run)

theorem hook_passes_non_null_witness:
  "result ctx_undefined \<noteq> JNull \<and>
   convertNullToNotFoundError (g_f_untranslated decimal) ctx_undefined propagate =
     (Inr (JStr ''next''), ctx_undefined)"
proof -
  have u: "result ctx_undefined \<noteq> JNull"
    by (simp add: ctx_undefined_def)
  from hook_passes_non_null [OF u, of "g_f_untranslated decimal" propagate] u
  show ?thesis by (simp add: propagate_run)
qed

text \<open>
  C9, as the claim states it, fails: for a request for the key \<^verbatim>\<open>foo\<close> that also
  carries \<^verbatim>\<open>id=foo\<close>, the lookup of \<^verbatim>\<open>id\<close> is not \<^verbatim>\<open>undefined\<close> and the key slot
  of the 404 message holds the requested key.
\<close>

theorem not_found_message_id_counterexample:
  \<open>result ctx_id_query = JNull \<and>
   getArgByName ctx_id_query ''key'' = JStr ''foo'' \<and>
   getArgByName ctx_id_query ''id'' = getArgByName ctx_id_query ''key'' \<and>
   fst (convertNullToNotFoundError (g_f_untranslated decimal) ctx_id_query propagate) =
     Inl \<lparr>message = ''Unknown "KV" key "foo".'',
          statusCode = JNum 404, status = JNum 404, code = JStr ''KEY_NOT_FOUND''\<rparr>\<close>
  by (simp add: convertNullToNotFoundError_def ctx_id_query_def args_by_name_def
      g_f_untranslated_def new_Error_def js_seq_def propagate_run)

text \<open>
  C9, amended. The get binding declares one argument, \<^verbatim>\<open>key\<close>, and on a null
  result the hook fills the key slot of the message with the lookup of \<^verbatim>\<open>id\<close>:
  the slot is whatever that lookup yields, the same whatever the argument \<^verbatim>\<open>key\<close>
  is, and it is \<^verbatim>\<open>undefined\<close> when the context has nothing named \<^verbatim>\<open>id\<close>.
\<close>

theorem not_found_message_reads_id_not_key:
  assumes "result ctx = JNull"
  shows \<open>declared_args (get_options g_f) = [''key''] \<and>
    convertNullToNotFoundError g_f ctx cb =
      js_seq (cb [\<lparr>message = g_f ''Unknown "%s" {{key}} "%s".''
                      [JStr (name (sharedClass (ctx_method ctx))), getArgByName ctx ''id''],
                   statusCode = JNum 404, status = JNum 404,
                   code = JStr ''KEY_NOT_FOUND''\<rparr>])
             (js_return JUndefined) ctx \<and>
    convertNullToNotFoundError g_f (ctx\<lparr>getArgByName := (getArgByName ctx)(''key'' := v)\<rparr>) cb =
      js_seq (cb [\<lparr>message = g_f ''Unknown "%s" {{key}} "%s".''
                      [JStr (name (sharedClass (ctx_method ctx))), getArgByName ctx ''id''],
                   statusCode = JNum 404, status = JNum 404,
                   code = JStr ''KEY_NOT_FOUND''\<rparr>])
             (js_return JUndefined) (ctx\<lparr>getArgByName := (getArgByName ctx)(''key'' := v)\<rparr>) \<and>
    (getArgByName ctx ''id'' = JUndefined \<longrightarrow>
       convertNullToNotFoundError g_f ctx cb =
         js_seq (cb [\<lparr>message = g_f ''Unknown "%s" {{key}} "%s".''
                         [JStr (name (sharedClass (ctx_method ctx))), JUndefined],
                      statusCode = JNum 404, status = JNum 404,
                      code = JStr ''KEY_NOT_FOUND''\<rparr>])
                (js_return JUndefined) ctx)\<close>
proof -
  have d: "declared_args (get_options g_f) = [''key'']"
    by (simp add: declared_args_def get_options_def)
  have r: "result (ctx\<lparr>getArgByName := (getArgByName ctx)(''key'' := v)\<rparr>) = JNull"
    using assms by simp
  from hook_null [OF assms, of g_f cb] hook_null [OF r, of g_f cb] d
  show ?thesis by simp
qed

theorem not_found_message_reads_id_not_key_witness:
  \<open>result ctx_missing = JNull \<and>
   getArgByName ctx_missing ''key'' = JStr ''foo'' \<and>
   getArgByName ctx_missing ''id'' = JUndefined \<and>
   fst (convertNullToNotFoundError (g_f_untranslated decimal) ctx_missing propagate) =
     Inl \<lparr>message = ''Unknown "KV" key "undefined".'',
          statusCode = JNum 404, status = JNum 404, code = JStr ''KEY_NOT_FOUND''\<rparr>\<close>
proof -
  have k: "getArgByName ctx_missing ''key'' = JStr ''foo''"
    by (simp add: ctx_missing_def args_by_name_def)
  from not_found_message_reads_id_not_key [OF ctx_missing_result,
      of "g_f_untranslated decimal" propagate]
    ctx_missing_result k ctx_missing_id ctx_missing_message
  show ?thesis by (simp add: js_seq_def propagate_run)
qed

section \<open>The operations on a store\<close>

text \<open>
  C4. In every history of operations on a store that started empty, a key that no
  operation of the history set is answered by get with the signal \<^verbatim>\<open>NOT_FOUND\<close>,
  which is a result and not an error, and the store is left as it was; and on any
  store and key whatever, get does not fail.
\<close>

theorem get_key_never_set_signals_not_found:
  assumes "\<not> previously_set k h"
  shows "store_get (run_history serializable h) k now =
           (Inr NOT_FOUND, run_history serializable h) \<and>
         \<not> isl (fst (store_get s k' now'))"
proof -
  from assms have "run_history serializable h k = None"
    by (rule run_history_absent)
  then have "store_get (run_history serializable h) k now =
      (Inr NOT_FOUND, run_history serializable h)"
    by (rule store_get_absent)
  moreover have "\<not> isl (fst (store_get s k' now'))"
    by (simp add: store_get_def split: option.splits)
  ultimately show ?thesis by simp
qed

theorem get_key_never_set_signals_not_found_witness:
  "\<not> previously_set ''b'' history0 \<and>
   fst (store_get (run_history serializes history0) ''b'' 30) = Inr NOT_FOUND \<and>
   fst (store_get (run_history serializes history0) ''a'' 30) =
     Inr (Found (JObj [(''x'', JNum 1)]))"
proof -
  have h: "\<not> previously_set ''b'' history0"
    by (simp add: previously_set_def history0_def)
  have a: "fst (store_get (run_history serializes history0) ''a'' 30) =
     Inr (Found (JObj [(''x'', JNum 1)]))"
    by (simp add: run_history_def history0_def store_set_def store_get_def store_expire_def
        serializes_def isExpired_def)
  from get_key_never_set_signals_not_found [where k = "''b''" and h = history0
      and serializable = serializes and now = 30 and s = store_a and k' = "''a''"
      and now' = 0, OF h] h a
  show ?thesis by simp
qed



text \<open>
  C7. On a key the store does not hold, expire fails with \<^verbatim>\<open>NotFound\<close> and leaves
  the store as it was, so the key is still absent. On a key the store holds and that
  has not expired, expire succeeds and replaces the entry by the same entry with only
  \<^verbatim>\<open>expiresAt\<close> changed, to now plus the TTL: key and value are as before and every
  other key is untouched. An entry that has already expired counts as absent: expire
  fails with \<^verbatim>\<open>NotFound\<close> and the entry is reclaimed.
\<close>

theorem expire_not_found_or_updates_expiry_only:
  "(s k = None \<longrightarrow>
      store_expire s k ttl now = (Inl NotFound, s) \<and>
      snd (store_expire s k ttl now) k = None) \<and>
   (s k = Some e \<and> \<not> isExpired e now \<longrightarrow>
      store_expire s k ttl now = (Inr (), s(k \<mapsto> e\<lparr>expiresAt := Some (now + ttl)\<rparr>)) \<and>
      map_option entry_value (snd (store_expire s k ttl now) k) = Some (entry_value e) \<and>
      map_option entry_key (snd (store_expire s k ttl now) k) = Some (entry_key e) \<and>
      map_option expiresAt (snd (store_expire s k ttl now) k) = Some (Some (now + ttl)) \<and>
      (\<forall>k'. k' \<noteq> k \<longrightarrow> snd (store_expire s k ttl now) k' = s k')) \<and>
   (s k = Some e \<and> isExpired e now \<longrightarrow>
      store_expire s k ttl now = (Inl NotFound, store_delete s k) \<and>
      snd (store_expire s k ttl now) k = None)"
  by (simp add: store_expire_def store_delete_def)

theorem expire_not_found_or_updates_expiry_only_witness:
  "store_a ''b'' = None \<and>
   fst (store_expire store_a ''b'' 100 10) = Inl NotFound \<and>
   snd (store_expire store_a ''b'' 100 10) ''b'' = None \<and>
   store_a ''a'' =
     Some \<lparr>entry_key = ''a'', entry_value = JObj [(''x'', JNum 1)], expiresAt = Some 50\<rparr> \<and>
   \<not> isExpired
       \<lparr>entry_key = ''a'', entry_value = JObj [(''x'', JNum 1)], expiresAt = Some 50\<rparr> 10 \<and>
   fst (store_expire store_a ''a'' 100 10) = Inr () \<and>
   snd (store_expire store_a ''a'' 100 10) ''a'' =
     Some \<lparr>entry_key = ''a'', entry_value = JObj [(''x'', JNum 1)], expiresAt = Some 110\<rparr> \<and>
   isExpired
       \<lparr>entry_key = ''a'', entry_value = JObj [(''x'', JNum 1)], expiresAt = Some 50\<rparr> 60 \<and>
   fst (store_expire store_a ''a'' 100 60) = Inl NotFound \<and>
   snd (store_expire store_a ''a'' 100 60) ''a'' = None"
proof -
  let ?e = "\<lparr>entry_key = ''a'', entry_value = JObj [(''x'', JNum 1)], expiresAt = Some 50\<rparr>"
  have b: "store_a ''b'' = None" and a: "store_a ''a'' = Some ?e"
    by (simp_all add: store_a_def)
  have l: "\<not> isExpired ?e 10" and x: "isExpired ?e 60"
    by (simp_all add: isExpired_def)
  from expire_not_found_or_updates_expiry_only [where s = store_a and k = "''b''"
      and ttl = 100 and now = 10 and e = ?e] b
  have 1: "fst (store_expire store_a ''b'' 100 10) = Inl NotFound \<and>
           snd (store_expire store_a ''b'' 100 10) ''b'' = None"
    by simp
  from expire_not_found_or_updates_expiry_only [where s = store_a and k = "''a''"
      and ttl = 100 and now = 10 and e = ?e] a l
  have 2: "fst (store_expire store_a ''a'' 100 10) = Inr () \<and>
           snd (store_expire store_a ''a'' 100 10) ''a'' = Some (?e\<lparr>expiresAt := Some 110\<rparr>)"
    by simp
  from expire_not_found_or_updates_expiry_only [where s = store_a and k = "''a''"
      and ttl = 100 and now = 60 and e = ?e] a x
  have 3: "fst (store_expire store_a ''a'' 100 60) = Inl NotFound \<and>
           snd (store_expire store_a ''a'' 100 60) ''a'' = None"
    by (simp add: store_delete_def)
  from b a l x 1 2 3 show ?thesis by simp
qed

end
